theory Spec2Isabelle
  imports Main
begin

section \<open>Go values: errors\<close>

text \<open>
  The struct \<^verbatim>\<open>HttpError\<close> of \<^verbatim>\<open>httpclient/error.go\<close>. Its field \<^verbatim>\<open>Err\<close> is a
  Go \<^verbatim>\<open>error\<close>, an interface value: \<open>None\<close> is \<^verbatim>\<open>nil\<close>. The type of the non-nil
  errors is a parameter here, since \<^verbatim>\<open>*HttpError\<close> is itself one of them.
\<close>

datatype 'e HttpError =
  HttpError (Url: string) (StatusCode: int) (Body: string) (Err: "'e option")

text \<open>
  The non-nil values of the interface \<^verbatim>\<open>error\<close>, by the kind of their dynamic type.
  \<^item> Pointers to heap objects; the first field is the object's address:
    \<open>ErrorString a s\<close> is what \<^verbatim>\<open>errors.New(s)\<close> returns (and stands for a pointer
    to any other struct), \<open>WithStack a cause msg\<close> is what \<^verbatim>\<open>errors.Wrap(cause, msg)\<close>
    of \<^verbatim>\<open>github.com/pkg/errors\<close> returns, \<open>HttpErrorPtr a e\<close> is a non-nil
    \<^verbatim>\<open>*HttpError\<close> that points to \<open>e\<close>.
  \<^item> \<open>ValueError T v msg\<close>: a value \<open>v\<close> of a comparable type \<open>T\<close> that is not a
    pointer, such as \<^verbatim>\<open>type strErr string\<close> or \<^verbatim>\<open>syscall.Errno\<close>; \<open>msg\<close> is what
    its method \<^verbatim>\<open>Error\<close> returns.
  \<^item> \<open>UncomparableError T msg\<close>: a value of a type \<open>T\<close> that Go cannot compare (a
    slice, a map, a function, or a struct or array that holds one), such as
    \<^verbatim>\<open>type multiErr []error\<close>.
\<close>

datatype go_error =
    ErrorString nat string
  | WithStack nat go_error string
  | HttpErrorPtr nat "go_error HttpError"
  | ValueError string string string
  | UncomparableError string string

text \<open>The run-time panics of the modelled code.\<close>

datatype panic = NilPointerDereference | InterfaceConversion | ComparingUncomparable string

text \<open>The dynamic type of an error, and what Go's \<^verbatim>\<open>==\<close> compares once two interface
  values have the same dynamic type: the address of a pointer, the value of a comparable
  type, nothing for an uncomparable one.\<close>

fun dynamicType :: "go_error \<Rightarrow> string" where
  "dynamicType (ErrorString a s) = ''*errors.errorString''"
| "dynamicType (WithStack a cause msg) = ''*errors.withStack''"
| "dynamicType (HttpErrorPtr a e) = ''*httpclient.HttpError''"
| "dynamicType (ValueError T v msg) = T"
| "dynamicType (UncomparableError T msg) = T"

datatype comparand = Address nat | Value string | NotComparable

fun compared :: "go_error \<Rightarrow> comparand" where
  "compared (ErrorString a s) = Address a"
| "compared (WithStack a cause msg) = Address a"
| "compared (HttpErrorPtr a e) = Address a"
| "compared (ValueError T v msg) = Value v"
| "compared (UncomparableError T msg) = NotComparable"

text \<open>
  Go's \<^verbatim>\<open>==\<close> on two values of the interface \<^verbatim>\<open>error\<close>: two nil values are equal, a
  nil and a non-nil value are not, values of two dynamic types are not; values of one
  dynamic type are compared as that type compares, and the comparison panics
  (\<^verbatim>\<open>runtime error: comparing uncomparable type T\<close>) when the type is not comparable.
\<close>

definition interface_eq :: "go_error option \<Rightarrow> go_error option \<Rightarrow> panic + bool" where
  "interface_eq x y =
     (case x of
        None \<Rightarrow> Inr (y = None)
      | Some ex \<Rightarrow>
          (case y of
             None \<Rightarrow> Inr False
           | Some ey \<Rightarrow>
               if dynamicType ex \<noteq> dynamicType ey then Inr False
               else if compared ex = NotComparable
                    then Inl (ComparingUncomparable (dynamicType ex))
                    else Inr (compared ex = compared ey)))"

text \<open>
  \<^verbatim>\<open>errors.Wrap(err, message)\<close>: \<^verbatim>\<open>nil\<close> for a \<^verbatim>\<open>nil\<close> error, else a new object (placed
  by the allocator at the address \<open>a\<close>) that keeps the cause.
\<close>

definition errors_Wrap :: "nat \<Rightarrow> go_error option \<Rightarrow> string \<Rightarrow> go_error option" where
  "errors_Wrap a err message =
     (case err of None \<Rightarrow> None | Some cause \<Rightarrow> Some (WithStack a cause message))"

subsection \<open>\<^verbatim>\<open>strconv.Itoa\<close> and \<^verbatim>\<open>strings.Contains\<close>\<close>

definition digit :: "nat \<Rightarrow> char" where
  "digit n = ''0123456789'' ! n"

fun digits :: "nat \<Rightarrow> string" where
  "digits n = (if n < 10 then [digit n] else digits (n div 10) @ [digit (n mod 10)])"

declare digits.simps [simp del]

definition Itoa :: "int \<Rightarrow> string" where
  "Itoa i = (if i < 0 then CHR ''-'' # digits (nat (- i)) else digits (nat i))"

text \<open>\<^verbatim>\<open>strings.Contains(s, substr)\<close>: \<open>substr\<close> occurs in \<open>s\<close> at some position.\<close>

fun strings_Contains :: "string \<Rightarrow> string \<Rightarrow> bool" where
  "strings_Contains [] substr = (substr = [])"
| "strings_Contains (c # s) substr =
     (take (length substr) (c # s) = substr \<or> strings_Contains s substr)"

subsection \<open>\<^verbatim>\<open>(*HttpError).Error\<close>\<close>

text \<open>
  The body of \<^verbatim>\<open>Error\<close>, over the fields it reads; \<open>errText\<close> is what the verb
  \<^verbatim>\<open>%v\<close> prints for \<^verbatim>\<open>e.Err\<close>.
  \<^verbatim>\<open>
  httpStatusCode := "no status"
  if e.StatusCode > 0 {
      httpStatusCode = strconv.Itoa(e.StatusCode)
  }
  return fmt.Sprintf("request to %v failed. "+
      "httpStatus: [ %v ] responseBody: [ %v ] "+
      "error: [ %v ]", e.Url, httpStatusCode, e.Body, e.Err)
  \<close>
\<close>

definition HttpError_message :: "string \<Rightarrow> int \<Rightarrow> string \<Rightarrow> string \<Rightarrow> string" where
  "HttpError_message url statusCode body errText =
     (let httpStatusCode = (if statusCode > 0 then Itoa statusCode else ''no status'')
      in ''request to '' @ url @ '' failed. '' @
         ''httpStatus: [ '' @ httpStatusCode @ '' ] responseBody: [ '' @ body @ '' ] '' @
         ''error: [ '' @ errText @ '' ]'')"

text \<open>The method \<^verbatim>\<open>Error()\<close> of a non-nil error, by its dynamic type.\<close>

fun error_Error :: "go_error \<Rightarrow> string" where
  "error_Error (ErrorString a s) = s"
| "error_Error (WithStack a cause msg) = msg @ '': '' @ error_Error cause"
| "error_Error (HttpErrorPtr a (HttpError url statusCode body None)) =
     HttpError_message url statusCode body ''<nil>''"
| "error_Error (HttpErrorPtr a (HttpError url statusCode body (Some err))) =
     HttpError_message url statusCode body (error_Error err)"
| "error_Error (ValueError T v msg) = msg"
| "error_Error (UncomparableError T msg) = msg"

text \<open>What \<^verbatim>\<open>fmt\<close> prints for an \<^verbatim>\<open>error\<close> under \<^verbatim>\<open>%v\<close>.\<close>

definition fmt_v_error :: "go_error option \<Rightarrow> string" where
  "fmt_v_error err = (case err of None \<Rightarrow> ''<nil>'' | Some x \<Rightarrow> error_Error x)"

definition Error :: "go_error HttpError \<Rightarrow> string" where
  "Error e = HttpError_message (Url e) (StatusCode e) (Body e) (fmt_v_error (Err e))"

subsection \<open>\<^verbatim>\<open>(*HttpError).Is\<close>\<close>

definition sameStatusCodes :: "int \<Rightarrow> int \<Rightarrow> bool" where
  "sameStatusCodes status anotherStatus \<longleftrightarrow> status = anotherStatus \<or> anotherStatus = 0"

definition sameBodies :: "string \<Rightarrow> string \<Rightarrow> bool" where
  "sameBodies body anotherBody \<longleftrightarrow> strings_Contains body anotherBody \<or> anotherBody = ''''"

text \<open>\<^verbatim>\<open>return err == anotherErr\<close>: the comparison may panic.\<close>

definition sameErrors :: "go_error option \<Rightarrow> go_error option \<Rightarrow> panic + bool" where
  "sameErrors err anotherErr = interface_eq err anotherErr"

text \<open>
  \<^verbatim>\<open>e.Is(targetErr)\<close>: \<open>e\<close> is the struct the receiver points to, \<open>targetErr\<close> an
  \<^verbatim>\<open>error\<close>, which may be \<^verbatim>\<open>nil\<close> or of another dynamic type. The operator \<^verbatim>\<open>&&\<close>
  evaluates its right operand only when the left one is true, so the errors are compared
  (and the comparison can panic) only when the status codes and the bodies match.
\<close>

fun Is :: "go_error HttpError \<Rightarrow> go_error option \<Rightarrow> panic + bool" where
  "Is e None = Inr False"
| "Is e (Some (HttpErrorPtr a t)) =
     (if \<not> sameStatusCodes (StatusCode e) (StatusCode t) then Inr False
      else if \<not> sameBodies (Body e) (Body t) then Inr False
      else sameErrors (Err e) (Err t))"
| "Is e (Some other) = Inr False"

section \<open>Go values: requests, responses, clients\<close>

text \<open>
  A response body is an \<^verbatim>\<open>io.ReadCloser\<close>: the bytes it still delivers, the error it
  reports after them (\<open>None\<close>: a clean end of stream) and whether it has been closed.
\<close>

record body =
  content :: string
  failure :: "go_error option"
  closed :: bool

definition Close :: "body \<Rightarrow> body" where
  "Close b = b\<lparr>closed := True\<rparr>"

text \<open>The fields of \<^verbatim>\<open>http.Response\<close> and \<^verbatim>\<open>http.Request\<close> the package reads;
  \<open>URL\<close> is the text \<^verbatim>\<open>req.URL.String()\<close> returns.\<close>

record response =
  resp_StatusCode :: int
  resp_Body :: body

record request =
  Method :: string
  URL :: string
  Header :: "(string \<times> string list) list"
  req_Body :: "string option"

datatype Context = Background | Done go_error

type_synonym CheckRetry =
  "Context \<Rightarrow> response option \<Rightarrow> go_error option \<Rightarrow> bool \<times> go_error option"

text \<open>The three fields of \<^verbatim>\<open>http.Transport\<close> that \<^verbatim>\<open>patchTransport\<close> sets. An
  \<^verbatim>\<open>http.RoundTripper\<close> is a \<^verbatim>\<open>*http.Transport\<close> or a value of another type.\<close>

record transport =
  MaxIdleConns :: int
  MaxIdleConnsPerHost :: int
  MaxConnsPerHost :: int

datatype round_tripper = HttpTransport transport | CustomRoundTripper nat

record http_client =
  Transport :: "round_tripper option"
  Timeout :: int

text \<open>The fields of \<^verbatim>\<open>retryablehttp.Client\<close> that \<^verbatim>\<open>patchRetryableClient\<close> sets.\<close>

record retryable_client =
  HTTPClient :: "http_client option"
  RetryWaitMin :: int
  RetryWaitMax :: int
  RetryMax :: int
  CheckRetry :: "CheckRetry option"

text \<open>
  The struct \<^verbatim>\<open>Client\<close> of \<^verbatim>\<open>httpclient/httpclient.go\<close>, field by field. A dump
  logger \<^verbatim>\<open>func(dump []byte)\<close> acts on the world outside the program, of type \<open>'w\<close>.
\<close>

record 'w Client =
  httpClient :: "http_client option"
  retryableHttpClient :: "retryable_client option"
  timeout :: int
  maxIdleConns :: int
  maxIdleConnsPerHost :: int
  maxConnsPerHost :: int
  maxRetries :: int
  checkRetryPolicy :: "CheckRetry option"
  retryWaitMin :: int
  retryWaitMax :: int
  requestDumpLogger :: "(string \<Rightarrow> 'w \<Rightarrow> 'w) option"
  dumpRequestBody :: bool

text \<open>
  The package variables bound to code outside the repository: the retrying sender
  (\<^verbatim>\<open>retryableHttpClient.Do\<close>), the JSON decoder (it reads the body and writes the
  destination, of type \<open>'v\<close>, and may fail) and \<^verbatim>\<open>httputil.DumpRequestOut\<close>.
\<close>

record 'v externals =
  retryableHttpClientDo ::
    "retryable_client option \<Rightarrow> request \<Rightarrow> response option \<times> go_error option"
  jsonDecode :: "body \<Rightarrow> 'v \<Rightarrow> go_error option \<times> 'v \<times> body"
  dumpRequestOut :: "request \<Rightarrow> bool \<Rightarrow> string \<times> go_error option"

section \<open>Classification and decoding (\<^verbatim>\<open>httpclient/httpclient.go\<close>)\<close>

definition StatusBadRequest :: int where
  "StatusBadRequest = 400"

text \<open>\<^verbatim>\<open>io.ReadAll\<close>: the bytes read, the error that stopped the read if one did, and the
  drained reader.\<close>

definition ioReadAll :: "body \<Rightarrow> string \<times> go_error option \<times> body" where
  "ioReadAll r = (content r, failure r, r\<lparr>content := []\<rparr>)"

text \<open>
  \<^verbatim>\<open>handleUnsuccessfulResponse(url, resp, receivedError)\<close>. The result is the
  \<^verbatim>\<open>*HttpError\<close> returned (\<open>None\<close>: \<^verbatim>\<open>nil\<close>) and the response as the call leaves it;
  \<open>fresh\<close> is the address the allocator gives to the wrapper \<^verbatim>\<open>errors.Wrap\<close> builds.
\<close>

definition handleUnsuccessfulResponse ::
  "nat \<Rightarrow> string \<Rightarrow> response option \<Rightarrow> go_error option
     \<Rightarrow> go_error HttpError option \<times> response option" where
  "handleUnsuccessfulResponse fresh url resp receivedError =
     (let onward =
        (if receivedError \<noteq> None
         then (Some (HttpError url 0 [] receivedError), resp)
         else (None, resp))
      in case resp of
           None \<Rightarrow> onward
         | Some r \<Rightarrow>
             if resp_StatusCode r \<ge> StatusBadRequest then
               (case ioReadAll (resp_Body r) of (respErr, err, b) \<Rightarrow>
                  let r' = r\<lparr>resp_Body := Close b\<rparr> in
                  if err \<noteq> None
                  then (Some (HttpError url (resp_StatusCode r) []
                                (errors_Wrap fresh err ''parsing response'')), Some r')
                  else (Some (HttpError url (resp_StatusCode r) respErr receivedError), Some r'))
             else onward)"

text \<open>
  \<^verbatim>\<open>decodeResponse(url, resp, v)\<close>: \<open>v\<close> is \<open>None\<close> for a \<^verbatim>\<open>nil\<close> destination, else
  the value the destination holds. The result adds the destination as the call leaves it.
\<close>

definition decodeResponse ::
  "(body \<Rightarrow> 'v \<Rightarrow> go_error option \<times> 'v \<times> body) \<Rightarrow> nat \<Rightarrow> string \<Rightarrow> response option
     \<Rightarrow> 'v option \<Rightarrow> go_error HttpError option \<times> response option \<times> 'v option" where
  "decodeResponse decode fresh url resp v =
     (case v of
        None \<Rightarrow> (None, resp, v)
      | Some d \<Rightarrow>
          (case resp of
             None \<Rightarrow> (None, resp, v)
           | Some r \<Rightarrow>
               (case decode (resp_Body r) d of (err, d', b) \<Rightarrow>
                  let r' = r\<lparr>resp_Body := Close b\<rparr> in
                  if err \<noteq> None
                  then (Some (HttpError url (resp_StatusCode r) []
                                (errors_Wrap fresh err ''decoding response'')), Some r', Some d')
                  else (None, Some r', Some d'))))"

text \<open>\<^verbatim>\<open>do(retryableHttpClient, req, v)\<close>: the response, the error and the destination.
  One call wraps at most one error (a wrapped classification error ends the call), so
  one fresh address serves both steps.\<close>

definition do ::
  "'v externals \<Rightarrow> nat \<Rightarrow> retryable_client option \<Rightarrow> request \<Rightarrow> 'v option
     \<Rightarrow> response option \<times> go_error HttpError option \<times> 'v option" where
  "do ext fresh retryableClient req v =
     (case retryableHttpClientDo ext retryableClient req of (resp, err) \<Rightarrow>
        (case handleUnsuccessfulResponse fresh (URL req) resp err of
           (Some e, resp1) \<Rightarrow> (resp1, Some e, v)
         | (None, resp1) \<Rightarrow>
             (case decodeResponse (jsonDecode ext) fresh (URL req) resp1 v of
                (Some e, resp2, v') \<Rightarrow> (resp2, Some e, v')
              | (None, resp2, v') \<Rightarrow> (resp2, None, v'))))"

text \<open>\<^verbatim>\<open>(*Client).logRequestDump(req)\<close>, on the world \<open>w\<close> the logger acts on.\<close>

definition logRequestDump :: "'v externals \<Rightarrow> 'w Client \<Rightarrow> request \<Rightarrow> 'w \<Rightarrow> 'w" where
  "logRequestDump ext c req w =
     (case requestDumpLogger c of
        None \<Rightarrow> w
      | Some logger \<Rightarrow>
          (case dumpRequestOut ext req (dumpRequestBody c) of (dump, err) \<Rightarrow>
             if err = None then logger dump w else w))"

definition sendRequest ::
  "'v externals \<Rightarrow> nat \<Rightarrow> 'w Client \<Rightarrow> request \<Rightarrow> 'v option \<Rightarrow> 'w
     \<Rightarrow> (response option \<times> go_error HttpError option \<times> 'v option) \<times> 'w" where
  "sendRequest ext fresh c req v w =
     (let w1 = logRequestDump ext c req w in
      case do ext fresh (retryableHttpClient c) req v of (resp, err, v') \<Rightarrow>
        if err \<noteq> None then ((resp, err, v'), w1) else ((resp, None, v'), w1))"

definition SendRequest ::
  "'v externals \<Rightarrow> nat \<Rightarrow> 'w Client \<Rightarrow> request \<Rightarrow> 'w
     \<Rightarrow> (response option \<times> go_error HttpError option \<times> 'v option) \<times> 'w" where
  "SendRequest ext fresh c req w = sendRequest ext fresh c req None w"

definition SendRequestAndUnmarshallJsonResponse ::
  "'v externals \<Rightarrow> nat \<Rightarrow> 'w Client \<Rightarrow> request \<Rightarrow> 'v option \<Rightarrow> 'w
     \<Rightarrow> (response option \<times> go_error HttpError option \<times> 'v option) \<times> 'w" where
  "SendRequestAndUnmarshallJsonResponse ext fresh c req v w = sendRequest ext fresh c req v w"

section \<open>Building a client (\<^verbatim>\<open>New\<close> and the option functions)\<close>

text \<open>\<^verbatim>\<open>type Option func(*Client)\<close>: an option updates the client it is given.\<close>

type_synonym 'w Option = "'w Client \<Rightarrow> 'w Client"

definition WithHttpClient :: "http_client option \<Rightarrow> 'w Option" where
  "WithHttpClient hc = (\<lambda>c. c\<lparr>httpClient := hc\<rparr>)"

definition WithTimeout :: "int \<Rightarrow> 'w Option" where
  "WithTimeout t = (\<lambda>c. c\<lparr>timeout := t\<rparr>)"

definition WithMaxIdleConns :: "int \<Rightarrow> 'w Option" where
  "WithMaxIdleConns n = (\<lambda>c. c\<lparr>maxIdleConns := n\<rparr>)"

definition WithMaxIdleConnsPerHost :: "int \<Rightarrow> 'w Option" where
  "WithMaxIdleConnsPerHost n = (\<lambda>c. c\<lparr>maxIdleConnsPerHost := n\<rparr>)"

definition WithMaxConnsPerHost :: "int \<Rightarrow> 'w Option" where
  "WithMaxConnsPerHost n = (\<lambda>c. c\<lparr>maxConnsPerHost := n\<rparr>)"

definition WithMaxRetries :: "int \<Rightarrow> 'w Option" where
  "WithMaxRetries n = (\<lambda>c. c\<lparr>maxRetries := n\<rparr>)"

definition WithRetryWaitMin :: "int \<Rightarrow> 'w Option" where
  "WithRetryWaitMin n = (\<lambda>c. c\<lparr>retryWaitMin := n\<rparr>)"

definition WithRetryWaitMax :: "int \<Rightarrow> 'w Option" where
  "WithRetryWaitMax n = (\<lambda>c. c\<lparr>retryWaitMax := n\<rparr>)"

definition WithCheckRetryPolicy :: "CheckRetry option \<Rightarrow> 'w Option" where
  "WithCheckRetryPolicy policy = (\<lambda>c. c\<lparr>checkRetryPolicy := policy\<rparr>)"

definition WithRequestDumpLogger :: "(string \<Rightarrow> 'w \<Rightarrow> 'w) option \<Rightarrow> bool \<Rightarrow> 'w Option" where
  "WithRequestDumpLogger logger dumpBody =
     (\<lambda>c. c\<lparr>requestDumpLogger := logger, dumpRequestBody := dumpBody\<rparr>)"

text \<open>\<^verbatim>\<open>new(Client)\<close>: every field at its zero value.\<close>

definition new_Client :: "'w Client" where
  "new_Client =
     \<lparr>httpClient = None, retryableHttpClient = None, timeout = 0, maxIdleConns = 0,
      maxIdleConnsPerHost = 0, maxConnsPerHost = 0, maxRetries = 0, checkRetryPolicy = None,
      retryWaitMin = 0, retryWaitMax = 0, requestDumpLogger = None, dumpRequestBody = False\<rparr>"

definition newClient :: "'w Option list \<Rightarrow> 'w Client" where
  "newClient options = foldl (\<lambda>client option. option client) new_Client options"

definition doNotRetryPolicy :: CheckRetry where
  "doNotRetryPolicy ctx resp err = (False, None)"

text \<open>
  \<^verbatim>\<open>patchRetryableClient(client)\<close>, assignment by assignment. The client is changed in
  place; reading through a nil \<^verbatim>\<open>client.retryableHttpClient\<close> panics.
\<close>

definition patchRetryableClient :: "'w Client \<Rightarrow> panic + 'w Client" where
  "patchRetryableClient client =
     (case retryableHttpClient client of
        None \<Rightarrow> Inl NilPointerDereference
      | Some rc0 \<Rightarrow>
          (let rc1 = rc0\<lparr>RetryMax := maxRetries client\<rparr>;
               rc2 = rc1\<lparr>RetryWaitMin := retryWaitMin client\<rparr>;
               rc3 = rc2\<lparr>RetryWaitMax := retryWaitMax client\<rparr>;
               rc4 = rc3\<lparr>HTTPClient := httpClient client\<rparr>;
               rc5 = rc4\<lparr>CheckRetry := Some doNotRetryPolicy\<rparr>;
               rc6 = (if checkRetryPolicy client \<noteq> None
                      then rc5\<lparr>CheckRetry := checkRetryPolicy client\<rparr> else rc5)
           in Inr (client\<lparr>retryableHttpClient := Some rc6\<rparr>)))"

text \<open>\<^verbatim>\<open>tr.(*http.Transport)\<close> with the comma-ok form.\<close>

definition castClientTransport :: "round_tripper option \<Rightarrow> transport option \<times> bool" where
  "castClientTransport tr =
     (case tr of Some (HttpTransport t) \<Rightarrow> (Some t, True) | _ \<Rightarrow> (None, False))"

text \<open>
  \<^verbatim>\<open>patchTransport(client)\<close>. \<open>DefaultTransport\<close> is the value of
  \<^verbatim>\<open>http.DefaultTransport\<close>; the assertion \<^verbatim>\<open>.(*http.Transport)\<close> on it panics when it
  holds another type. \<^verbatim>\<open>Clone\<close> copies, and a record is a copy already.
\<close>

definition patchTransport :: "round_tripper option \<Rightarrow> 'w Client \<Rightarrow> panic + 'w Client" where
  "patchTransport DefaultTransport client =
     (case httpClient client of
        None \<Rightarrow> Inl NilPointerDereference
      | Some hc0 \<Rightarrow>
          (case (if Transport hc0 = None
                 then (case DefaultTransport of
                         Some (HttpTransport dt) \<Rightarrow> Inr (hc0\<lparr>Transport := Some (HttpTransport dt)\<rparr>)
                       | _ \<Rightarrow> Inl InterfaceConversion)
                 else Inr hc0) of
             Inl p \<Rightarrow> Inl p
           | Inr hc1 \<Rightarrow>
               (case castClientTransport (Transport hc1) of
                  (tr, isTransport) \<Rightarrow>
                    if \<not> isTransport then Inr (client\<lparr>httpClient := Some hc1\<rparr>)
                    else
                      (case tr of
                         None \<Rightarrow> Inl NilPointerDereference
                       | Some t0 \<Rightarrow>
                           (let t1 = t0\<lparr>MaxIdleConns := maxIdleConns client\<rparr>;
                                t2 = t1\<lparr>MaxConnsPerHost := maxConnsPerHost client\<rparr>;
                                t3 = t2\<lparr>MaxIdleConnsPerHost := maxIdleConnsPerHost client\<rparr>
                            in Inr (client\<lparr>httpClient :=
                                 Some (hc1\<lparr>Transport := Some (HttpTransport t3)\<rparr>)\<rparr>))))))"

text \<open>
  \<^verbatim>\<open>New(options...)\<close>. \<open>NewClient\<close> is what \<^verbatim>\<open>retryablehttp.NewClient()\<close> returns.
\<close>

definition New ::
  "retryable_client \<Rightarrow> round_tripper option \<Rightarrow> 'w Option list \<Rightarrow> panic + 'w Client" where
  "New NewClient DefaultTransport options =
     (let client0 = newClient options;
          client1 = client0\<lparr>retryableHttpClient := Some NewClient\<rparr>;
          client2 = (if httpClient client1 = None
                     then client1\<lparr>httpClient := Some \<lparr>Transport = None, Timeout = timeout client1\<rparr>\<rparr>
                     else client1)
      in case patchTransport DefaultTransport client2 of
           Inl p \<Rightarrow> Inl p
         | Inr client3 \<Rightarrow> patchRetryableClient client3)"

section \<open>The shipped retry policies (\<^verbatim>\<open>httpclient/retry/policies/policies.go\<close>)\<close>

definition DoNotRetry :: CheckRetry where
  "DoNotRetry ctx resp err = (False, None)"

definition Eof :: CheckRetry where
  "Eof ctx resp err =
     (case err of
        Some e \<Rightarrow> (strings_Contains (error_Error e) ''EOF'', err)
      | None \<Rightarrow> (False, err))"

section \<open>Values of the package's tests (\<^verbatim>\<open>httpclient/httpclient_test.go\<close>)\<close>

text \<open>\<^verbatim>\<open>io.NopCloser(bytes.NewReader(data))\<close> and a body whose read fails.\<close>

definition NopCloser :: "string \<Rightarrow> body" where
  "NopCloser data = \<lparr>content = data, failure = None, closed = False\<rparr>"

definition failingBody :: "string \<Rightarrow> go_error \<Rightarrow> body" where
  "failingBody data err = \<lparr>content = data, failure = Some err, closed = False\<rparr>"

text \<open>\<^verbatim>\<open>errors.New("random error")\<close>, allocated at the address \<open>a\<close>.\<close>

definition randomError :: "nat \<Rightarrow> go_error" where
  "randomError a = ErrorString a ''random error''"

text \<open>\<^verbatim>\<open>http.NewRequest(http.MethodPost, "http://localhost/some/path", nil)\<close>.\<close>

definition somePathRequest :: request where
  "somePathRequest =
     \<lparr>Method = ''POST'', URL = ''http://localhost/some/path'', Header = [], req_Body = None\<rparr>"

text \<open>
  The mocks: a sender that returns a fixed outcome, a decoder that fails with a fixed
  error or stores the bytes it read, a request dump. The destination is a string and the
  world is the list of dumps the logger has received.
\<close>

definition mocks ::
  "response option \<Rightarrow> go_error option \<Rightarrow> go_error option \<Rightarrow> string externals" where
  "mocks resp err decodeErr =
     \<lparr>retryableHttpClientDo = (\<lambda>retryableClient req. (resp, err)),
      jsonDecode = (\<lambda>b d. case decodeErr of
                             Some e \<Rightarrow> (Some e, d, b)
                           | None \<Rightarrow> (failure b, content b, b\<lparr>content := []\<rparr>)),
      dumpRequestOut = (\<lambda>req dumpBody. (Method req @ '' '' @ URL req, None))\<rparr>"

definition recordDump :: "string \<Rightarrow> string list \<Rightarrow> string list" where
  "recordDump dump w = w @ [dump]"

definition someRetryableClient :: retryable_client where
  "someRetryableClient =
     \<lparr>HTTPClient = None, RetryWaitMin = 1000000000, RetryWaitMax = 30000000000, RetryMax = 4,
      CheckRetry = None\<rparr>"

definition someTransport :: transport where
  "someTransport = \<lparr>MaxIdleConns = 100, MaxIdleConnsPerHost = 0, MaxConnsPerHost = 0\<rparr>"

section \<open>Properties of the error model\<close>

lemma strings_Contains_iff: "strings_Contains s substr \<longleftrightarrow> (\<exists>p q. s = p @ substr @ q)"
proof (induction s)
  case Nil
  then show ?case by auto
next
  case (Cons c s)
  show ?case
  proof
    assume "strings_Contains (c # s) substr"
    then consider "take (length substr) (c # s) = substr" | "strings_Contains s substr"
      by auto
    then show "\<exists>p q. c # s = p @ substr @ q"
    proof cases
      case 1
      then have "c # s = [] @ substr @ drop (length substr) (c # s)"
        by (metis append_Nil append_take_drop_id)
      then show ?thesis by blast
    next
      case 2
      then obtain p q where "s = p @ substr @ q" using Cons.IH by blast
      then have "c # s = (c # p) @ substr @ q" by simp
      then show ?thesis by blast
    qed
  next
    assume "\<exists>p q. c # s = p @ substr @ q"
    then obtain p q where pq: "c # s = p @ substr @ q" by blast
    show "strings_Contains (c # s) substr"
    proof (cases p)
      case Nil
      with pq have "take (length substr) (c # s) = substr" by simp
      then show ?thesis by simp
    next
      case (Cons x p')
      with pq have "s = p' @ substr @ q" by simp
      then have "strings_Contains s substr" using Cons.IH by blast
      then show ?thesis by simp
    qed
  qed
qed

lemma strings_Contains_empty: "strings_Contains s []"
  by (cases s) auto

lemma Itoa_502: "Itoa 502 = ''502''"
  by (simp add: Itoa_def digits.simps [of 502] digits.simps [of 50] digits.simps [of 5] digit_def)

lemma Itoa_500: "Itoa 500 = ''500''"
  by (simp add: Itoa_def digits.simps [of 500] digits.simps [of 50] digits.simps [of 5] digit_def)

lemma Itoa_200: "Itoa 200 = ''200''"
  by (simp add: Itoa_def digits.simps [of 200] digits.simps [of 20] digits.simps [of 2] digit_def)

lemma error_Error_HttpErrorPtr: "error_Error (HttpErrorPtr a e) = Error e"
  by (cases e; cases "Err e") (simp_all add: Error_def fmt_v_error_def)

text \<open>
  Claim C10. \<^verbatim>\<open>Error\<close> formats one message: for status code 502, an empty body and a
  nil underlying error, built for the URL \<open>u\<close>, it is exactly
  \<^verbatim>\<open>request to <u> failed. httpStatus: [ 502 ] responseBody: [  ] error: [ <nil> ]\<close>;
  and with status code 0 the status is rendered as \<^verbatim>\<open>no status\<close>, whatever the URL, the
  body and the underlying error.
\<close>

theorem Error_message:
  "Error (HttpError u 502 '''' None) =
     ''request to '' @ u @ '' failed. httpStatus: [ 502 ] responseBody: [  ] error: [ <nil> ]''
   \<and> Error (HttpError u 0 b err) =
     ''request to '' @ u @ '' failed. httpStatus: [ no status ] responseBody: [ '' @ b @
     '' ] error: [ '' @ fmt_v_error err @ '' ]''"
  by (simp add: Error_def HttpError_message_def Itoa_502 fmt_v_error_def)



text \<open>
  The comparison of the underlying errors, kind by kind. Two pointers match iff they
  are one object, whatever their messages; two values of a comparable type match iff
  they are equal, also when built apart; two values of one uncomparable type make
  \<^verbatim>\<open>Is\<close> panic, also when they are one and the same value, but only once the status
  codes and the bodies have matched; errors of two dynamic types never match.
\<close>

lemma Is_compares_pointers_by_identity:
  "Is (HttpError u s body (Some (ErrorString a msg)))
      (Some (HttpErrorPtr p (HttpError u' s body (Some (ErrorString b msg'))))) = Inr (a = b)"
  by (simp add: sameStatusCodes_def sameBodies_def sameErrors_def interface_eq_def
      strings_Contains_iff) (metis append_Nil append_Nil2)

lemma Is_compares_values_by_value:
  "Is (HttpError u s body (Some (ValueError T v msg)))
      (Some (HttpErrorPtr p (HttpError u' s body (Some (ValueError T v' msg'))))) = Inr (v = v')"
  by (simp add: sameStatusCodes_def sameBodies_def sameErrors_def interface_eq_def
      strings_Contains_iff) (metis append_Nil append_Nil2)

lemma Is_panics_on_uncomparable:
  "Is (HttpError u s body (Some (UncomparableError T msg)))
      (Some (HttpErrorPtr p (HttpError u' s body (Some (UncomparableError T msg'))))) =
     Inl (ComparingUncomparable T)"
  by (simp add: sameStatusCodes_def sameBodies_def sameErrors_def interface_eq_def
      strings_Contains_iff) (metis append_Nil append_Nil2)

lemma Is_skips_comparison_when_status_differs:
  "Is (HttpError u 400 body (Some (UncomparableError T msg)))
      (Some (HttpErrorPtr p (HttpError u' 500 body' (Some (UncomparableError T msg'))))) =
     Inr False"
  by (simp add: sameStatusCodes_def)

lemma Is_other_dynamic_types:
  "dynamicType x \<noteq> dynamicType y \<Longrightarrow>
     Is (HttpError u s body (Some x)) (Some (HttpErrorPtr p (HttpError u' s body (Some y)))) =
       Inr False"
  by (simp add: sameErrors_def interface_eq_def)

lemma Is_other_targets:
  "Is e None = Inr False" "Is e (Some (ErrorString a s)) = Inr False"
  "Is e (Some (WithStack a cause msg)) = Inr False"
  "Is e (Some (ValueError T v msg)) = Inr False"
  "Is e (Some (UncomparableError T msg)) = Inr False"
  by simp_all

text \<open>
  Claim C4. A target with status code 0 matches a source with any status code, when the
  bodies and the underlying errors match; a target with an empty body matches a source
  with any body, when the status codes and the underlying errors match.
\<close>

theorem Is_wildcards:
  "(StatusCode t = 0 \<and> sameBodies (Body e) (Body t) \<and> sameErrors (Err e) (Err t) = Inr True
      \<longrightarrow> Is e (Some (HttpErrorPtr a t)) = Inr True)
   \<and> (Body t = '''' \<and> sameStatusCodes (StatusCode e) (StatusCode t) \<and>
        sameErrors (Err e) (Err t) = Inr True
      \<longrightarrow> Is e (Some (HttpErrorPtr a t)) = Inr True)"
  by (simp add: sameStatusCodes_def sameBodies_def)

theorem Is_wildcards_witness:
  "StatusCode (HttpError '''' 0 '''' (None :: go_error option)) = 0
   \<and> Body (HttpError '''' 0 '''' (None :: go_error option)) = ''''
   \<and> sameBodies ''some body'' ''''
   \<and> sameStatusCodes 400 0
   \<and> sameErrors None None = Inr True
   \<and> Is (HttpError ''u'' 400 ''some body'' None)
        (Some (HttpErrorPtr 1 (HttpError '''' 0 '''' None))) = Inr True"
  using Is_wildcards [of "HttpError '''' 0 '''' None" "HttpError ''u'' 400 ''some body'' None" 1]
  by (simp add: sameStatusCodes_def sameBodies_def sameErrors_def interface_eq_def)

section \<open>Properties of classification and decoding\<close>

lemma classification_passes_iff:
  "fst (handleUnsuccessfulResponse fresh url resp receivedError) = None \<longleftrightarrow>
     receivedError = None \<and> (\<forall>r. resp = Some r \<longrightarrow> resp_StatusCode r < StatusBadRequest)"
  by (auto simp: handleUnsuccessfulResponse_def Let_def ioReadAll_def split: option.splits)

lemma classification_passes_keeps_response:
  "fst (handleUnsuccessfulResponse fresh url resp receivedError) = None \<Longrightarrow>
     handleUnsuccessfulResponse fresh url resp receivedError = (None, resp)"
  by (auto simp: handleUnsuccessfulResponse_def Let_def ioReadAll_def split: option.splits if_splits)

text \<open>
  Claim C1, as amended. When the response is non-nil with a status code below 400 and a
  transport error is present, classification returns a StructuredError with status code
  0, an empty body and the transport error as its underlying error, and leaves the
  response as it is; \<^verbatim>\<open>do\<close> then returns the response with that error and does not
  decode.
\<close>

theorem success_status_with_transport_error:
  assumes "resp_StatusCode r < 400"
  shows "handleUnsuccessfulResponse fresh url (Some r) (Some e) =
           (Some (HttpError url 0 [] (Some e)), Some r)
         \<and> (retryableHttpClientDo ext rc req = (Some r, Some e) \<longrightarrow>
              do ext fresh rc req v = (Some r, Some (HttpError (URL req) 0 [] (Some e)), v))"
  using assms
  by (simp add: handleUnsuccessfulResponse_def StatusBadRequest_def do_def)

theorem success_status_with_transport_error_witness:
  "resp_StatusCode \<lparr>resp_StatusCode = 200, resp_Body = NopCloser ''ok''\<rparr> < 400
   \<and> handleUnsuccessfulResponse 7 ''http://localhost/some/path''
        (Some \<lparr>resp_StatusCode = 200, resp_Body = NopCloser ''ok''\<rparr>) (Some (randomError 1)) =
       (Some (HttpError ''http://localhost/some/path'' 0 [] (Some (randomError 1))),
        Some \<lparr>resp_StatusCode = 200, resp_Body = NopCloser ''ok''\<rparr>)
   \<and> retryableHttpClientDo
        (mocks (Some \<lparr>resp_StatusCode = 200, resp_Body = NopCloser ''ok''\<rparr>)
           (Some (randomError 1)) None) None somePathRequest =
       (Some \<lparr>resp_StatusCode = 200, resp_Body = NopCloser ''ok''\<rparr>, Some (randomError 1))
   \<and> do (mocks (Some \<lparr>resp_StatusCode = 200, resp_Body = NopCloser ''ok''\<rparr>)
           (Some (randomError 1)) None) 7 None somePathRequest (Some ''dest'') =
       (Some \<lparr>resp_StatusCode = 200, resp_Body = NopCloser ''ok''\<rparr>,
        Some (HttpError ''http://localhost/some/path'' 0 [] (Some (randomError 1))),
        Some ''dest'')"
  using success_status_with_transport_error
    [of "\<lparr>resp_StatusCode = 200, resp_Body = NopCloser ''ok''\<rparr>" 7
      "''http://localhost/some/path''" "randomError 1"
      "mocks (Some \<lparr>resp_StatusCode = 200, resp_Body = NopCloser ''ok''\<rparr>)
         (Some (randomError 1)) None" None somePathRequest "Some ''dest''"]
  by (simp add: mocks_def somePathRequest_def)

text \<open>
  Claim C1 as stated says that classification returns no error there. With status 200
  and the transport error \<^verbatim>\<open>random error\<close>, it returns an error.
\<close>

theorem success_status_with_transport_error_counterexample:
  "fst (handleUnsuccessfulResponse 0 ''http://localhost/some/path''
          (Some \<lparr>resp_StatusCode = 200, resp_Body = NopCloser ''ok''\<rparr>)
          (Some (randomError 1))) \<noteq> None"
  by (simp add: handleUnsuccessfulResponse_def StatusBadRequest_def)

text \<open>
  Claim C2. For a non-nil response with status code at least 400 whose body reads
  without failure, classification returns a StructuredError whose status code is the
  response's, whose body is the whole response body, whose Url is the target URL and
  whose underlying error is the received transport error. The response is left drained
  and closed.
\<close>

theorem application_error_carries_status_and_body:
  assumes "resp_StatusCode r \<ge> 400" and "failure (resp_Body r) = None"
  shows "handleUnsuccessfulResponse fresh url (Some r) receivedError =
           (Some (HttpError url (resp_StatusCode r) (content (resp_Body r)) receivedError),
            Some (r\<lparr>resp_Body := (resp_Body r)\<lparr>content := [], closed := True\<rparr>\<rparr>))"
  using assms
  by (simp add: handleUnsuccessfulResponse_def StatusBadRequest_def ioReadAll_def Close_def)

theorem application_error_carries_status_and_body_witness:
  "resp_StatusCode \<lparr>resp_StatusCode = 500, resp_Body = NopCloser ''some random error''\<rparr> \<ge> 400
   \<and> failure (resp_Body \<lparr>resp_StatusCode = 500, resp_Body = NopCloser ''some random error''\<rparr>) = None
   \<and> handleUnsuccessfulResponse 7 ''http://localhost/some/path''
        (Some \<lparr>resp_StatusCode = 500, resp_Body = NopCloser ''some random error''\<rparr>)
        (Some (randomError 1)) =
       (Some (HttpError ''http://localhost/some/path'' 500 ''some random error''
                (Some (randomError 1))),
        Some \<lparr>resp_StatusCode = 500,
               resp_Body = \<lparr>content = [], failure = None, closed = True\<rparr>\<rparr>)"
  using application_error_carries_status_and_body
    [of "\<lparr>resp_StatusCode = 500, resp_Body = NopCloser ''some random error''\<rparr>" 7
      "''http://localhost/some/path''" "Some (randomError 1)"]
  by (simp add: NopCloser_def)

text \<open>
  Claim C5. For a non-nil response with status code at least 400 whose body read fails,
  classification returns a StructuredError whose underlying error wraps the read failure
  with the context \<^verbatim>\<open>parsing response\<close> and whose body is empty. The result is the
  same for every received transport error: that error is not surfaced.
\<close>

theorem body_read_failure_masks_transport_error:
  assumes "resp_StatusCode r \<ge> 400" and "failure (resp_Body r) = Some readErr"
  shows "handleUnsuccessfulResponse fresh url (Some r) receivedError =
           (Some (HttpError url (resp_StatusCode r) []
                    (errors_Wrap fresh (Some readErr) ''parsing response'')),
            Some (r\<lparr>resp_Body := (resp_Body r)\<lparr>content := [], closed := True\<rparr>\<rparr>))
         \<and> errors_Wrap fresh (Some readErr) ''parsing response'' =
             Some (WithStack fresh readErr ''parsing response'')
         \<and> error_Error (WithStack fresh readErr ''parsing response'') =
             ''parsing response: '' @ error_Error readErr"
  using assms
  by (simp add: handleUnsuccessfulResponse_def StatusBadRequest_def ioReadAll_def Close_def
      errors_Wrap_def)

theorem body_read_failure_masks_transport_error_witness:
  "resp_StatusCode \<lparr>resp_StatusCode = 500, resp_Body = failingBody ''par'' (randomError 1)\<rparr> \<ge> 400
   \<and> failure (resp_Body \<lparr>resp_StatusCode = 500, resp_Body = failingBody ''par'' (randomError 1)\<rparr>)
       = Some (randomError 1)
   \<and> handleUnsuccessfulResponse 7 ''http://localhost/some/path''
        (Some \<lparr>resp_StatusCode = 500, resp_Body = failingBody ''par'' (randomError 1)\<rparr>)
        (Some (ErrorString 2 ''transport error'')) =
       (Some (HttpError ''http://localhost/some/path'' 500 []
                (Some (WithStack 7 (randomError 1) ''parsing response''))),
        Some \<lparr>resp_StatusCode = 500,
               resp_Body = \<lparr>content = [], failure = Some (randomError 1), closed = True\<rparr>\<rparr>)
   \<and> error_Error (WithStack 7 (randomError 1) ''parsing response'') =
       ''parsing response: random error''"
  using body_read_failure_masks_transport_error
    [of "\<lparr>resp_StatusCode = 500, resp_Body = failingBody ''par'' (randomError 1)\<rparr>"
      "randomError 1" 7 "''http://localhost/some/path''" "Some (ErrorString 2 ''transport error'')"]
  by (simp add: failingBody_def randomError_def errors_Wrap_def)

text \<open>
  Claim C7. With a nil response: if a transport error is present, classification returns
  a StructuredError with status code 0, an empty body and the transport error as its
  underlying error; if there is no transport error either, it returns no error.
\<close>

theorem nil_response_classification:
  "handleUnsuccessfulResponse fresh url None (Some e) = (Some (HttpError url 0 [] (Some e)), None)
   \<and> handleUnsuccessfulResponse fresh url None None = (None, None)"
  by (simp add: handleUnsuccessfulResponse_def)

text \<open>
  Claim C8. With a non-nil destination and a response that passed classification, a
  failure of the JSON decoder is returned by \<^verbatim>\<open>do\<close> as a StructuredError that carries
  the response's status code and an underlying error wrapping the decoder's error with
  the context \<^verbatim>\<open>decoding response\<close>; the response (its body closed) is returned with
  it.
\<close>

theorem decode_failure_returned_with_response:
  assumes "retryableHttpClientDo ext rc req = (Some r, err)"
    and "fst (handleUnsuccessfulResponse fresh (URL req) (Some r) err) = None"
    and "jsonDecode ext (resp_Body r) d = (Some decErr, d', b)"
  shows "do ext fresh rc req (Some d) =
           (Some (r\<lparr>resp_Body := Close b\<rparr>),
            Some (HttpError (URL req) (resp_StatusCode r) []
                    (errors_Wrap fresh (Some decErr) ''decoding response'')),
            Some d')
         \<and> errors_Wrap fresh (Some decErr) ''decoding response'' =
             Some (WithStack fresh decErr ''decoding response'')
         \<and> error_Error (WithStack fresh decErr ''decoding response'') =
             ''decoding response: '' @ error_Error decErr"
  using assms classification_passes_keeps_response [of fresh "URL req" "Some r" err]
  by (simp add: do_def decodeResponse_def errors_Wrap_def)

theorem decode_failure_returned_with_response_witness:
  "retryableHttpClientDo
      (mocks (Some \<lparr>resp_StatusCode = 200, resp_Body = NopCloser ''{key:value}''\<rparr>) None
         (Some (randomError 1))) None somePathRequest =
     (Some \<lparr>resp_StatusCode = 200, resp_Body = NopCloser ''{key:value}''\<rparr>, None)
   \<and> fst (handleUnsuccessfulResponse 7 (URL somePathRequest)
        (Some \<lparr>resp_StatusCode = 200, resp_Body = NopCloser ''{key:value}''\<rparr>) None) = None
   \<and> jsonDecode
        (mocks (Some \<lparr>resp_StatusCode = 200, resp_Body = NopCloser ''{key:value}''\<rparr>) None
           (Some (randomError 1))) (NopCloser ''{key:value}'') '''' =
       (Some (randomError 1), '''', NopCloser ''{key:value}'')
   \<and> do (mocks (Some \<lparr>resp_StatusCode = 200, resp_Body = NopCloser ''{key:value}''\<rparr>) None
           (Some (randomError 1))) 7 None somePathRequest (Some '''') =
       (Some \<lparr>resp_StatusCode = 200,
               resp_Body = \<lparr>content = ''{key:value}'', failure = None, closed = True\<rparr>\<rparr>,
        Some (HttpError ''http://localhost/some/path'' 200 []
                (Some (WithStack 7 (randomError 1) ''decoding response''))),
        Some '''')"
  using decode_failure_returned_with_response
    [of "mocks (Some \<lparr>resp_StatusCode = 200, resp_Body = NopCloser ''{key:value}''\<rparr>) None
           (Some (randomError 1))" None somePathRequest
      "\<lparr>resp_StatusCode = 200, resp_Body = NopCloser ''{key:value}''\<rparr>" None 7
      "''''" "randomError 1" "''''" "NopCloser ''{key:value}''"]
  by (simp add: mocks_def somePathRequest_def NopCloser_def Close_def errors_Wrap_def
      handleUnsuccessfulResponse_def StatusBadRequest_def)

section \<open>Properties of the client's configuration and of the dispatch\<close>

lemma patchTransport_keeps:
  "patchTransport dt c = Inr c' \<Longrightarrow>
     checkRetryPolicy c' = checkRetryPolicy c \<and> retryableHttpClient c' = retryableHttpClient c"
  by (auto simp: patchTransport_def castClientTransport_def Let_def
      split: option.splits sum.splits if_splits round_tripper.splits prod.splits)

lemma patchTransport_returns:
  "httpClient c \<noteq> None \<Longrightarrow> \<exists>c'. patchTransport (Some (HttpTransport dt)) c = Inr c'"
  by (auto simp: patchTransport_def castClientTransport_def Let_def
      split: option.splits sum.splits if_splits round_tripper.splits prod.splits)

lemma New_patches:
  "\<exists>c3. New nc (Some (HttpTransport dt)) options = patchRetryableClient c3 \<and>
     checkRetryPolicy c3 = checkRetryPolicy (newClient options) \<and>
     retryableHttpClient c3 = Some nc"
proof -
  define c1 where "c1 = (newClient options)\<lparr>retryableHttpClient := Some nc\<rparr>"
  define c2 where "c2 = (if httpClient c1 = None
      then c1\<lparr>httpClient := Some \<lparr>Transport = None, Timeout = timeout c1\<rparr>\<rparr> else c1)"
  have "httpClient c2 \<noteq> None" by (simp add: c2_def)
  then obtain c3 where c3: "patchTransport (Some (HttpTransport dt)) c2 = Inr c3"
    using patchTransport_returns by blast
  have keep: "checkRetryPolicy c3 = checkRetryPolicy (newClient options)"
    "retryableHttpClient c3 = Some nc"
    using patchTransport_keeps [OF c3] by (simp_all add: c2_def c1_def)
  have "New nc (Some (HttpTransport dt)) options =
      (case patchTransport (Some (HttpTransport dt)) c2 of
         Inl p \<Rightarrow> Inl p | Inr c \<Rightarrow> patchRetryableClient c)"
    by (simp add: New_def Let_def c1_def c2_def)
  then have "New nc (Some (HttpTransport dt)) options = patchRetryableClient c3"
    by (simp add: c3)
  with keep show ?thesis by blast
qed

text \<open>
  Claim C6. When the caller supplies no custom retry policy (the options leave
  \<^verbatim>\<open>checkRetryPolicy\<close> nil), \<^verbatim>\<open>New\<close> returns a client whose retryable client has
  \<^verbatim>\<open>doNotRetryPolicy\<close> as its retry predicate, and that predicate returns
  \<^verbatim>\<open>(false, nil)\<close> on every context, response and error; when a custom policy is
  supplied, that policy is installed instead.
\<close>

theorem New_installs_retry_policy:
  "(checkRetryPolicy (newClient options) = None \<longrightarrow>
      (\<exists>c rc. New nc (Some (HttpTransport dt)) options = Inr c \<and>
         retryableHttpClient c = Some rc \<and> CheckRetry rc = Some doNotRetryPolicy))
   \<and> doNotRetryPolicy ctx resp err = (False, None)
   \<and> (\<forall>policy. checkRetryPolicy (newClient options) = Some policy \<longrightarrow>
        (\<exists>c rc. New nc (Some (HttpTransport dt)) options = Inr c \<and>
           retryableHttpClient c = Some rc \<and> CheckRetry rc = Some policy))"
proof -
  obtain c3 where new: "New nc (Some (HttpTransport dt)) options = patchRetryableClient c3"
    and keep: "checkRetryPolicy c3 = checkRetryPolicy (newClient options)"
      "retryableHttpClient c3 = Some nc"
    using New_patches by blast
  show ?thesis
    unfolding new using keep
    by (cases "checkRetryPolicy (newClient options)")
      (simp_all add: patchRetryableClient_def Let_def doNotRetryPolicy_def)
qed

lemma newClient_without_policy:
  "checkRetryPolicy
     (newClient [WithTimeout 30000000000, WithMaxRetries 5,
        WithRequestDumpLogger (Some recordDump) False]) = None"
  by (simp add: newClient_def new_Client_def WithTimeout_def WithMaxRetries_def
      WithRequestDumpLogger_def)

lemma newClient_with_policy:
  "checkRetryPolicy
     (newClient [WithMaxRetries 1, WithCheckRetryPolicy (Some Eof) :: string list Option])
   = Some Eof"
  by (simp add: newClient_def new_Client_def WithMaxRetries_def WithCheckRetryPolicy_def)

theorem New_installs_retry_policy_witness:
  "checkRetryPolicy
     (newClient [WithTimeout 30000000000, WithMaxRetries 5,
        WithRequestDumpLogger (Some recordDump) False]) = None
   \<and> (\<exists>c rc. New someRetryableClient (Some (HttpTransport someTransport))
          [WithTimeout 30000000000, WithMaxRetries 5,
           WithRequestDumpLogger (Some recordDump) False] = Inr c \<and>
        retryableHttpClient c = Some rc \<and> CheckRetry rc = Some doNotRetryPolicy)
   \<and> doNotRetryPolicy Background None (Some (randomError 1)) = (False, None)
   \<and> checkRetryPolicy
       (newClient [WithMaxRetries 1, WithCheckRetryPolicy (Some Eof) :: string list Option])
       = Some Eof
   \<and> (\<exists>c rc. New someRetryableClient (Some (HttpTransport someTransport))
          [WithMaxRetries 1, WithCheckRetryPolicy (Some Eof) :: string list Option] = Inr c \<and>
        retryableHttpClient c = Some rc \<and> CheckRetry rc = Some Eof)"
  using
    New_installs_retry_policy
      [of "[WithTimeout 30000000000, WithMaxRetries 5,
            WithRequestDumpLogger (Some recordDump) False]"
        someRetryableClient someTransport Background None "Some (randomError 1)"]
    New_installs_retry_policy
      [of "[WithMaxRetries 1, WithCheckRetryPolicy (Some Eof) :: string list Option]"
        someRetryableClient someTransport Background None "Some (randomError 1)"]
    newClient_without_policy newClient_with_policy
  by simp

text \<open>The world after \<^verbatim>\<open>sendRequest\<close> is the world as \<^verbatim>\<open>logRequestDump\<close> left it
  before the send: no logger runs after the send, whatever the response.\<close>

lemma sendRequest_logs_before_send_only:
  "snd (sendRequest ext fresh c req v w) = logRequestDump ext c req w"
  by (simp add: sendRequest_def Let_def split: prod.splits)

text \<open>
  Claim C9, evaluated on the code. A client is built with the one dump-logger option
  the package has, \<^verbatim>\<open>WithRequestDumpLogger\<close>; the sender answers 200 with an empty
  body. After \<^verbatim>\<open>SendRequest\<close> the logger has received the request dump and nothing
  else: the response is never serialized and no logger is called after the send.
\<close>

theorem SendRequest_dumps_request_only:
  "(case New someRetryableClient (Some (HttpTransport someTransport))
           [WithRequestDumpLogger (Some recordDump) False] of
      Inl p \<Rightarrow> False
    | Inr c \<Rightarrow>
        SendRequest
          (mocks (Some \<lparr>resp_StatusCode = 200, resp_Body = NopCloser ''''\<rparr>) None None)
          7 c somePathRequest [] =
        ((Some \<lparr>resp_StatusCode = 200, resp_Body = NopCloser ''''\<rparr>, None, None),
         [''POST http://localhost/some/path'']))"
  by (simp add: New_def newClient_def new_Client_def WithRequestDumpLogger_def Let_def
      patchTransport_def castClientTransport_def patchRetryableClient_def
      SendRequest_def sendRequest_def logRequestDump_def do_def mocks_def
      handleUnsuccessfulResponse_def decodeResponse_def StatusBadRequest_def
      somePathRequest_def recordDump_def)

section \<open>The package's tests, on the model\<close>

text \<open>
  Cases of \<^verbatim>\<open>TestSendRequest\<close> and \<^verbatim>\<open>TestSendRequestAndUnmarshallJsonResponse\<close>:
  the message of the error \<^verbatim>\<open>do\<close> returns is the message the test expects.
\<close>

lemma test_without_response:
  "map_option Error (fst (snd (do (mocks None (Some (randomError 1)) None) 7 rc
      somePathRequest None))) =
   Some (''request to http://localhost/some/path failed. '' @
         ''httpStatus: [ no status ] responseBody: [  ] error: [ random error ]'')"
  by (simp add: do_def mocks_def handleUnsuccessfulResponse_def somePathRequest_def
      Error_def HttpError_message_def fmt_v_error_def randomError_def)

lemma test_unsuccessful_response_error_when_parsing:
  "map_option Error (fst (snd (do
      (mocks (Some \<lparr>resp_StatusCode = 500, resp_Body = failingBody [] (randomError 1)\<rparr>)
         None None) 7 rc somePathRequest None))) =
   Some (''request to http://localhost/some/path failed. '' @
         ''httpStatus: [ 500 ] responseBody: [  ] error: [ parsing response: random error ]'')"
  by (simp add: do_def mocks_def handleUnsuccessfulResponse_def somePathRequest_def
      Error_def HttpError_message_def fmt_v_error_def randomError_def failingBody_def
      ioReadAll_def StatusBadRequest_def errors_Wrap_def Itoa_500)

lemma test_unsuccessful_response_with_some_other_error:
  "map_option Error (fst (snd (do
      (mocks (Some \<lparr>resp_StatusCode = 500, resp_Body = NopCloser []\<rparr>)
         (Some (randomError 1)) None) 7 rc somePathRequest None))) =
   Some (''request to http://localhost/some/path failed. '' @
         ''httpStatus: [ 500 ] responseBody: [  ] error: [ random error ]'')"
  by (simp add: do_def mocks_def handleUnsuccessfulResponse_def somePathRequest_def
      Error_def HttpError_message_def fmt_v_error_def randomError_def NopCloser_def
      ioReadAll_def StatusBadRequest_def Itoa_500)

lemma test_error_when_decoding_response:
  "map_option Error (fst (snd (do
      (mocks (Some \<lparr>resp_StatusCode = 200, resp_Body = NopCloser ''{key:value}''\<rparr>)
         None (Some (randomError 1))) 7 rc somePathRequest (Some [])))) =
   Some (''request to http://localhost/some/path failed. '' @
         ''httpStatus: [ 200 ] responseBody: [  ] error: [ decoding response: random error ]'')"
  by (simp add: do_def mocks_def handleUnsuccessfulResponse_def decodeResponse_def
      somePathRequest_def Error_def HttpError_message_def fmt_v_error_def randomError_def
      NopCloser_def StatusBadRequest_def errors_Wrap_def Itoa_200)

lemma test_happy_path_decodes:
  "do (mocks (Some \<lparr>resp_StatusCode = 200, resp_Body = NopCloser ''{key:value}''\<rparr>)
         None None) 7 rc somePathRequest (Some []) =
   (Some \<lparr>resp_StatusCode = 200,
           resp_Body = \<lparr>content = [], failure = None, closed = True\<rparr>\<rparr>,
    None, Some ''{key:value}'')"
  by (simp add: do_def mocks_def handleUnsuccessfulResponse_def decodeResponse_def
      somePathRequest_def NopCloser_def StatusBadRequest_def Close_def)

text \<open>Cases of \<^verbatim>\<open>TestIs\<close>.\<close>

lemma test_Is:
  "Is (HttpError [] 0 [] None) None = Inr False"
  "Is (HttpError [] 0 [] None) (Some (randomError 1)) = Inr False"
  "Is (HttpError [] 400 [] None) (Some (HttpErrorPtr 2 (HttpError [] 400 [] None))) = Inr True"
  "Is (HttpError [] 400 [] None) (Some (HttpErrorPtr 2 (HttpError [] 500 [] None))) = Inr False"
  "Is (HttpError [] 400 [] None) (Some (HttpErrorPtr 2 (HttpError [] 0 [] None))) = Inr True"
  "Is (HttpError [] 0 ''some body'' None)
      (Some (HttpErrorPtr 2 (HttpError [] 0 ''some body'' None))) = Inr True"
  "Is (HttpError [] 0 ''some body'' None) (Some (HttpErrorPtr 2 (HttpError [] 0 [] None))) =
     Inr True"
  "Is (HttpError [] 0 ''some body'' None)
      (Some (HttpErrorPtr 2 (HttpError [] 0 ''another body'' None))) = Inr False"
  "Is (HttpError [] 0 [] (Some (ErrorString 3 ''net/http: abort Handler'')))
      (Some (HttpErrorPtr 2 (HttpError [] 0 [] (Some (ErrorString 3 ''net/http: abort Handler'')))))
     = Inr True"
  "Is (HttpError [] 0 [] (Some (ErrorString 4 ''http: request method or response status code does not allow body'')))
      (Some (HttpErrorPtr 2 (HttpError [] 0 [] (Some (ErrorString 3 ''net/http: abort Handler'')))))
     = Inr False"
  by (simp_all add: sameStatusCodes_def sameBodies_def sameErrors_def interface_eq_def
      randomError_def)

text \<open>The policy \<^verbatim>\<open>Eof\<close> retries exactly on an error whose message contains \<^verbatim>\<open>EOF\<close>,
  and returns the error it was given.\<close>

lemma Eof_policy:
  "Eof ctx resp None = (False, None)"
  "Eof ctx resp (Some e) = (\<exists>p q. error_Error e = p @ ''EOF'' @ q, Some e)"
  by (simp_all add: Eof_def strings_Contains_iff)

end
